theory Spec2Isabelle
  imports Main "HOL-Library.AList" "HOL-Library.Char_ord" "HOL-Library.List_Lexorder"
begin

section \<open>Raw JSON records\<close>

text \<open>
  The repositories of \<^verbatim>\<open>students_rooms/repositories.py\<close> work on what
  \<^verbatim>\<open>json.load\<close> returns: a list of dictionaries. A dictionary is an association
  list in insertion order (Python keeps it), looked up with \<open>map_of\<close> and assigned with
  \<open>AList.update\<close>, which overwrites in place or appends a new key at the end.
  Field values are JSON null, integers and strings; booleans, floats and nested
  documents are outside the model.
\<close>

datatype jval = JNull | JInt int | JStr string

type_synonym raw = "(string \<times> jval) list"

datatype error =
    RepositoryError string
  | FileNotFoundError string
  | JSONDecodeError
  | UnicodeDecodeError
  | RecursionError
  | KeyError string
  | TypeError
  | ValueError

text \<open>\<^verbatim>\<open>d.get(k)\<close>: a missing key reads as \<^verbatim>\<open>None\<close>.\<close>

definition dict_get :: "raw \<Rightarrow> string \<Rightarrow> jval" where
  "dict_get d k = (case map_of d k of None \<Rightarrow> JNull | Some v \<Rightarrow> v)"

text \<open>\<^verbatim>\<open>d[k]\<close>: a missing key raises \<^verbatim>\<open>KeyError\<close>.\<close>

definition dict_item :: "raw \<Rightarrow> string \<Rightarrow> error + jval" where
  "dict_item d k = (case map_of d k of None \<Rightarrow> Inl (KeyError k) | Some v \<Rightarrow> Inr v)"

subsection \<open>The builtins \<^verbatim>\<open>int\<close> and \<^verbatim>\<open>str\<close>\<close>

definition is_space :: "char \<Rightarrow> bool" where
  "is_space c \<longleftrightarrow> (let n = (of_char c :: nat) in (9 \<le> n \<and> n \<le> 13) \<or> n = 32)"

definition strip :: "string \<Rightarrow> string" where
  "strip s = rev (dropWhile is_space (rev (dropWhile is_space s)))"

definition digit_val :: "char \<Rightarrow> int option" where
  "digit_val c = (let n = (of_char c :: nat) in if 48 \<le> n \<and> n \<le> 57 then Some (int n - 48) else None)"

text \<open>
  Decimal digits with single underscores between digits; the flag says whether the
  previous character was a digit.
\<close>

fun digits :: "int \<Rightarrow> bool \<Rightarrow> string \<Rightarrow> int option" where
  "digits acc prev [] = (if prev then Some acc else None)"
| "digits acc prev (c # cs) =
     (if c = CHR ''_'' then (if prev then digits acc False cs else None)
      else (case digit_val c of None \<Rightarrow> None | Some d \<Rightarrow> digits (10 * acc + d) True cs))"

definition int_of_string :: "string \<Rightarrow> int option" where
  "int_of_string s =
     (case strip s of
        [] \<Rightarrow> None
      | c # cs \<Rightarrow>
          if c = CHR ''-'' then map_option uminus (digits 0 False cs)
          else if c = CHR ''+'' then digits 0 False cs
          else digits 0 False (c # cs))"

text \<open>
  \<^verbatim>\<open>int(v)\<close> on ASCII input: white space around the number is the characters 9 to 13
  and 32; \<^verbatim>\<open>int(None)\<close> is a TypeError, an unparsable string a ValueError.
\<close>

fun py_int :: "jval \<Rightarrow> error + int" where
  "py_int (JInt i) = Inr i"
| "py_int JNull = Inl TypeError"
| "py_int (JStr s) = (case int_of_string s of None \<Rightarrow> Inl ValueError | Some i \<Rightarrow> Inr i)"

fun show_nat :: "nat \<Rightarrow> string" where
  "show_nat n = (if n < 10 then [char_of (48 + n)] else show_nat (n div 10) @ [char_of (48 + n mod 10)])"

definition show_int :: "int \<Rightarrow> string" where
  "show_int i = (if i < 0 then CHR ''-'' # show_nat (nat (- i)) else show_nat (nat i))"

fun py_str :: "jval \<Rightarrow> string" where
  "py_str (JStr s) = s"
| "py_str JNull = ''None''"
| "py_str (JInt i) = show_int i"

text \<open>\<^verbatim>\<open>a > b\<close> as \<^verbatim>\<open>max\<close> uses it: defined between two integers or two strings.\<close>

fun py_gt :: "jval \<Rightarrow> jval \<Rightarrow> error + bool" where
  "py_gt (JInt a) (JInt b) = Inr (a > b)"
| "py_gt (JStr a) (JStr b) = Inr (a > b)"
| "py_gt _ _ = Inl TypeError"

section \<open>The files\<close>

text \<open>
  A path names no file, or a file of one of four kinds, told apart by what
  \<^verbatim>\<open>open\<close> and \<^verbatim>\<open>json.load\<close> do with it:
  \<^item> \<open>Undecodable\<close>: the bytes are not UTF-8 text, and reading raises
    \<^verbatim>\<open>UnicodeDecodeError\<close>;
  \<^item> \<open>TooDeep\<close>: the text is nested beyond the recursion limit of the parser, which
    raises \<^verbatim>\<open>RecursionError\<close>;
  \<^item> \<open>Malformed\<close>: the text is UTF-8 and the parser rejects it with
    \<^verbatim>\<open>json.JSONDecodeError\<close>;
  \<^item> \<open>Doc\<close>: a JSON array of records.
  The field \<open>writes\<close> logs the paths written, in order, so that "no write" can be
  told from a write of the same content. Writing always succeeds in the model.
\<close>

datatype content = Undecodable | TooDeep | Malformed | Doc "raw list"

record world =
  files :: "string \<rightharpoonup> content"
  writes :: "string list"

text \<open>
  \<^verbatim>\<open>JsonFileRepositoryMixin._read\<close> and \<^verbatim>\<open>_write\<close>. The two handlers of
  \<^verbatim>\<open>_read\<close> are for \<^verbatim>\<open>FileNotFoundError\<close> and \<^verbatim>\<open>json.JSONDecodeError\<close>; every
  other exception leaves it as it was raised.
\<close>

definition repo_read :: "string \<Rightarrow> world \<Rightarrow> error + raw list" where
  "repo_read file_path w =
     (case files w file_path of
        None \<Rightarrow> Inr []
      | Some Undecodable \<Rightarrow> Inl UnicodeDecodeError
      | Some TooDeep \<Rightarrow> Inl RecursionError
      | Some Malformed \<Rightarrow> Inl (RepositoryError (''Invalid JSON in '' @ file_path))
      | Some (Doc items) \<Rightarrow> Inr items)"

definition repo_write :: "string \<Rightarrow> raw list \<Rightarrow> world \<Rightarrow> world" where
  "repo_write file_path items w =
     w\<lparr>files := (files w)(file_path \<mapsto> Doc items), writes := writes w @ [file_path]\<rparr>"

text \<open>
  \<^verbatim>\<open>JsonDataLoader.load\<close>: \<^verbatim>\<open>open\<close> and \<^verbatim>\<open>json.load\<close> with no handler. The file
  is opened with the default encoding, taken to be UTF-8.
\<close>

definition load :: "string \<Rightarrow> world \<Rightarrow> error + raw list" where
  "load file_path w =
     (case files w file_path of
        None \<Rightarrow> Inl (FileNotFoundError file_path)
      | Some Undecodable \<Rightarrow> Inl UnicodeDecodeError
      | Some TooDeep \<Rightarrow> Inl RecursionError
      | Some Malformed \<Rightarrow> Inl JSONDecodeError
      | Some (Doc items) \<Rightarrow> Inr items)"

section \<open>Domain objects\<close>

record Room =
  room_id :: int
  room_name :: string

record Student =
  student_id :: int
  student_name :: string
  student_room :: int

section \<open>Identifier assignment\<close>

text \<open>
  \<^verbatim>\<open>max((r["id"] for r in rooms), default=0) + 1\<close>, left to right: the generator raises
  KeyError at the first record without an id, \<^verbatim>\<open>max\<close> raises TypeError at the first
  pair it cannot compare, and the final addition needs an integer.
\<close>

fun max_ids :: "jval option \<Rightarrow> raw list \<Rightarrow> error + jval option" where
  "max_ids m [] = Inr m"
| "max_ids m (r # rs) =
     (case dict_item r ''id'' of
        Inl e \<Rightarrow> Inl e
      | Inr v \<Rightarrow>
          (case m of
             None \<Rightarrow> max_ids (Some v) rs
           | Some u \<Rightarrow>
               (case py_gt v u of
                  Inl e \<Rightarrow> Inl e
                | Inr b \<Rightarrow> max_ids (Some (if b then v else u)) rs)))"

definition next_id :: "raw list \<Rightarrow> error + int" where
  "next_id items =
     (case max_ids None items of
        Inl e \<Rightarrow> Inl e
      | Inr None \<Rightarrow> Inr (0 + 1)
      | Inr (Some (JInt i)) \<Rightarrow> Inr (i + 1)
      | Inr (Some _) \<Rightarrow> Inl TypeError)"

section \<open>Rooms repository\<close>

text \<open>\<^verbatim>\<open>Room(id=int(r["id"]), name=str(r["name"]))\<close>, as create and update build it.\<close>

definition room_of_items :: "raw \<Rightarrow> error + Room" where
  "room_of_items r =
     (case dict_item r ''id'' of
        Inl e \<Rightarrow> Inl e
      | Inr i \<Rightarrow>
          (case py_int i of
             Inl e \<Rightarrow> Inl e
           | Inr n \<Rightarrow>
               (case dict_item r ''name'' of
                  Inl e \<Rightarrow> Inl e
                | Inr v \<Rightarrow> Inr \<lparr>room_id = n, room_name = py_str v\<rparr>)))"

definition rooms_create :: "string \<Rightarrow> string \<Rightarrow> world \<Rightarrow> (error + Room) \<times> world" where
  "rooms_create file_path name w =
     (case repo_read file_path w of
        Inl e \<Rightarrow> (Inl e, w)
      | Inr rooms \<Rightarrow>
          (case next_id rooms of
             Inl e \<Rightarrow> (Inl e, w)
           | Inr n \<Rightarrow>
               (let room = [(''id'', JInt n), (''name'', JStr name)]
                in (room_of_items room, repo_write file_path (rooms @ [room]) w))))"

text \<open>
  The loop of update: the first record whose \<^verbatim>\<open>get("id")\<close> equals the identifier is
  changed in place; the result is the changed list and the changed record.
\<close>

fun update_first :: "int \<Rightarrow> (raw \<Rightarrow> raw) \<Rightarrow> raw list \<Rightarrow> (raw list \<times> raw) option" where
  "update_first i f [] = None"
| "update_first i f (r # rs) =
     (if dict_get r ''id'' = JInt i then Some (f r # rs, f r)
      else (case update_first i f rs of
              None \<Rightarrow> None
            | Some (rs', r') \<Rightarrow> Some (r # rs', r')))"

definition rooms_update :: "string \<Rightarrow> int \<Rightarrow> string \<Rightarrow> world \<Rightarrow> (error + Room option) \<times> world" where
  "rooms_update file_path rid name w =
     (case repo_read file_path w of
        Inl e \<Rightarrow> (Inl e, w)
      | Inr rooms \<Rightarrow>
          (case update_first rid (AList.update ''name'' (JStr name)) rooms of
             None \<Rightarrow> (Inr None, w)
           | Some (rooms', r) \<Rightarrow>
               (let w' = repo_write file_path rooms' w
                in (case room_of_items r of Inl e \<Rightarrow> (Inl e, w') | Inr x \<Rightarrow> (Inr (Some x), w')))))"

definition rooms_delete :: "string \<Rightarrow> int \<Rightarrow> world \<Rightarrow> (error + bool) \<times> world" where
  "rooms_delete file_path rid w =
     (case repo_read file_path w of
        Inl e \<Rightarrow> (Inl e, w)
      | Inr rooms \<Rightarrow>
          (let new_rooms = filter (\<lambda>r. dict_get r ''id'' \<noteq> JInt rid) rooms
           in if length new_rooms = length rooms then (Inr False, w)
              else (Inr True, repo_write file_path new_rooms w)))"

section \<open>Students repository\<close>

text \<open>\<^verbatim>\<open>Student(id=int(s.get("id")), name=str(s.get("name")), room=int(s.get("room")))\<close> of list.\<close>

definition student_of_get :: "raw \<Rightarrow> error + Student" where
  "student_of_get s =
     (case py_int (dict_get s ''id'') of
        Inl e \<Rightarrow> Inl e
      | Inr i \<Rightarrow>
          (case py_int (dict_get s ''room'') of
             Inl e \<Rightarrow> Inl e
           | Inr r \<Rightarrow> Inr \<lparr>student_id = i, student_name = py_str (dict_get s ''name''), student_room = r\<rparr>))"

text \<open>A list comprehension \<^verbatim>\<open>[s for s in items if int(s.get(k)) in allowed]\<close>.\<close>

fun filter_by :: "string \<Rightarrow> int list \<Rightarrow> raw list \<Rightarrow> error + raw list" where
  "filter_by k allowed [] = Inr []"
| "filter_by k allowed (s # ss) =
     (case py_int (dict_get s k) of
        Inl e \<Rightarrow> Inl e
      | Inr i \<Rightarrow>
          (case filter_by k allowed ss of
             Inl e \<Rightarrow> Inl e
           | Inr rest \<Rightarrow> Inr (if i \<in> set allowed then s # rest else rest)))"

fun normalize :: "raw list \<Rightarrow> error + Student list" where
  "normalize [] = Inr []"
| "normalize (s # ss) =
     (case student_of_get s of
        Inl e \<Rightarrow> Inl e
      | Inr x \<Rightarrow> (case normalize ss of Inl e \<Rightarrow> Inl e | Inr xs \<Rightarrow> Inr (x # xs)))"

definition students_list :: "string \<Rightarrow> int list option \<Rightarrow> int list option \<Rightarrow> world \<Rightarrow> error + Student list" where
  "students_list file_path ids_in room_in w =
     (case repo_read file_path w of
        Inl e \<Rightarrow> Inl e
      | Inr items \<Rightarrow>
          (case (case ids_in of None \<Rightarrow> Inr items | Some ids \<Rightarrow> filter_by ''id'' ids items) of
             Inl e \<Rightarrow> Inl e
           | Inr items1 \<Rightarrow>
               (case (case room_in of None \<Rightarrow> Inr items1 | Some rs \<Rightarrow> filter_by ''room'' rs items1) of
                  Inl e \<Rightarrow> Inl e
                | Inr items2 \<Rightarrow> normalize items2)))"

text \<open>\<^verbatim>\<open>Student(id=int(s["id"]), name=str(s["name"]), room=int(s["room"]))\<close> of create.\<close>

definition student_of_items :: "raw \<Rightarrow> error + Student" where
  "student_of_items s =
     (case dict_item s ''id'' of
        Inl e \<Rightarrow> Inl e
      | Inr i \<Rightarrow>
          (case py_int i of
             Inl e \<Rightarrow> Inl e
           | Inr n \<Rightarrow>
               (case dict_item s ''name'' of
                  Inl e \<Rightarrow> Inl e
                | Inr v \<Rightarrow>
                    (case dict_item s ''room'' of
                       Inl e \<Rightarrow> Inl e
                     | Inr r \<Rightarrow>
                         (case py_int r of
                            Inl e \<Rightarrow> Inl e
                          | Inr m \<Rightarrow> Inr \<lparr>student_id = n, student_name = py_str v, student_room = m\<rparr>)))))"

definition students_create :: "string \<Rightarrow> string \<Rightarrow> int \<Rightarrow> world \<Rightarrow> (error + Student) \<times> world" where
  "students_create file_path name room w =
     (case repo_read file_path w of
        Inl e \<Rightarrow> (Inl e, w)
      | Inr students \<Rightarrow>
          (case next_id students of
             Inl e \<Rightarrow> (Inl e, w)
           | Inr n \<Rightarrow>
               (let student = [(''id'', JInt n), (''name'', JStr name), (''room'', JInt room)]
                in (student_of_items student, repo_write file_path (students @ [student]) w))))"

text \<open>\<^verbatim>\<open>Student(id=int(s["id"]), name=str(s["name"]), room=int(s.get("room")))\<close> of update.\<close>

definition student_of_updated :: "raw \<Rightarrow> error + Student" where
  "student_of_updated s =
     (case dict_item s ''id'' of
        Inl e \<Rightarrow> Inl e
      | Inr i \<Rightarrow>
          (case py_int i of
             Inl e \<Rightarrow> Inl e
           | Inr n \<Rightarrow>
               (case dict_item s ''name'' of
                  Inl e \<Rightarrow> Inl e
                | Inr v \<Rightarrow>
                    (case py_int (dict_get s ''room'') of
                       Inl e \<Rightarrow> Inl e
                     | Inr m \<Rightarrow> Inr \<lparr>student_id = n, student_name = py_str v, student_room = m\<rparr>))))"

text \<open>The two guarded assignments of update: only a supplied field is overwritten.\<close>

definition assign_fields :: "string option \<Rightarrow> int option \<Rightarrow> raw \<Rightarrow> raw" where
  "assign_fields name room s =
     (let s1 = (case name of None \<Rightarrow> s | Some n \<Rightarrow> AList.update ''name'' (JStr n) s)
      in (case room of None \<Rightarrow> s1 | Some r \<Rightarrow> AList.update ''room'' (JInt r) s1))"

definition students_update ::
  "string \<Rightarrow> int \<Rightarrow> string option \<Rightarrow> int option \<Rightarrow> world \<Rightarrow> (error + Student option) \<times> world" where
  "students_update file_path sid name room w =
     (case repo_read file_path w of
        Inl e \<Rightarrow> (Inl e, w)
      | Inr students \<Rightarrow>
          (case update_first sid (assign_fields name room) students of
             None \<Rightarrow> (Inr None, w)
           | Some (students', s) \<Rightarrow>
               (let w' = repo_write file_path students' w
                in (case student_of_updated s of Inl e \<Rightarrow> (Inl e, w') | Inr x \<Rightarrow> (Inr (Some x), w')))))"

definition students_delete :: "string \<Rightarrow> int \<Rightarrow> world \<Rightarrow> (error + bool) \<times> world" where
  "students_delete file_path sid w =
     (case repo_read file_path w of
        Inl e \<Rightarrow> (Inl e, w)
      | Inr students \<Rightarrow>
          (let new_students = filter (\<lambda>s. dict_get s ''id'' \<noteq> JInt sid) students
           in if length new_students = length students then (Inr False, w)
              else (Inr True, repo_write file_path new_students w)))"

definition students_move :: "string \<Rightarrow> int \<Rightarrow> int \<Rightarrow> world \<Rightarrow> (error + Student option) \<times> world" where
  "students_move file_path sid to_room_id w = students_update file_path sid None (Some to_room_id) w"

section \<open>Combined view\<close>

text \<open>
  The dictionaries \<^verbatim>\<open>{'id', 'name'}\<close> and \<^verbatim>\<open>{'id', 'name', 'students'}\<close> that
  \<^verbatim>\<open>DataCombiner.combine\<close> builds. The values are copied from the raw records
  unconverted.
\<close>

record StudentEntry =
  entry_id :: jval
  entry_name :: jval

record CombinedRoom =
  combined_id :: jval
  combined_name :: jval
  combined_students :: "StudentEntry list"

text \<open>
  The dict comprehension over the rooms: a later room with the same id replaces the
  value and keeps the place of the key.
\<close>

fun build_room_dict :: "(jval \<times> CombinedRoom) list \<Rightarrow> raw list \<Rightarrow> error + (jval \<times> CombinedRoom) list" where
  "build_room_dict room_dict [] = Inr room_dict"
| "build_room_dict room_dict (room # rooms) =
     (case dict_item room ''id'' of
        Inl e \<Rightarrow> Inl e
      | Inr k \<Rightarrow>
          (case dict_item room ''name'' of
             Inl e \<Rightarrow> Inl e
           | Inr n \<Rightarrow>
               build_room_dict
                 (AList.update k \<lparr>combined_id = k, combined_name = n, combined_students = []\<rparr> room_dict)
                 rooms))"

text \<open>The loop over the students; the id and name of a student are read only on a match.\<close>

fun add_students :: "(jval \<times> CombinedRoom) list \<Rightarrow> raw list \<Rightarrow> error + (jval \<times> CombinedRoom) list" where
  "add_students room_dict [] = Inr room_dict"
| "add_students room_dict (student # students) =
     (case dict_item student ''room'' of
        Inl e \<Rightarrow> Inl e
      | Inr rid \<Rightarrow>
          (case map_of room_dict rid of
             None \<Rightarrow> add_students room_dict students
           | Some entry \<Rightarrow>
               (case dict_item student ''id'' of
                  Inl e \<Rightarrow> Inl e
                | Inr i \<Rightarrow>
                    (case dict_item student ''name'' of
                       Inl e \<Rightarrow> Inl e
                     | Inr n \<Rightarrow>
                         add_students
                           (AList.update rid
                              (entry\<lparr>combined_students :=
                                 combined_students entry @ [\<lparr>entry_id = i, entry_name = n\<rparr>]\<rparr>)
                              room_dict)
                           students))))"

definition combine :: "raw list \<Rightarrow> raw list \<Rightarrow> error + CombinedRoom list" where
  "combine rooms students =
     (case build_room_dict [] rooms of
        Inl e \<Rightarrow> Inl e
      | Inr room_dict \<Rightarrow>
          (case add_students room_dict students of
             Inl e \<Rightarrow> Inl e
           | Inr room_dict' \<Rightarrow> Inr (map snd room_dict')))"

text \<open>
  \<^verbatim>\<open>CombinedViewSet.list\<close>, with the two paths of the settings as parameters.
\<close>

definition combined_list :: "string \<Rightarrow> string \<Rightarrow> world \<Rightarrow> error + CombinedRoom list" where
  "combined_list rooms_path students_path w =
     (case load rooms_path w of
        Inl e \<Rightarrow> Inl e
      | Inr rooms \<Rightarrow>
          (case load students_path w of
             Inl e \<Rightarrow> Inl e
           | Inr students \<Rightarrow> combine rooms students))"

section \<open>Sequences of calls\<close>

text \<open>
  A caller issues creates and deletes one after the other on the same file; the run
  collects the ids that the creates return. A call that raises returns no id and the
  next call goes on from the files it left.
\<close>

datatype 'a op = Create 'a | Delete int

fun rooms_run :: "string \<Rightarrow> string op list \<Rightarrow> world \<Rightarrow> int list" where
  "rooms_run file_path [] w = []"
| "rooms_run file_path (Create name # ops) w =
     (case rooms_create file_path name w of
        (Inl e, w') \<Rightarrow> rooms_run file_path ops w'
      | (Inr room, w') \<Rightarrow> room_id room # rooms_run file_path ops w')"
| "rooms_run file_path (Delete i # ops) w =
     rooms_run file_path ops (snd (rooms_delete file_path i w))"

fun students_run :: "string \<Rightarrow> (string \<times> int) op list \<Rightarrow> world \<Rightarrow> int list" where
  "students_run file_path [] w = []"
| "students_run file_path (Create (name, room) # ops) w =
     (case students_create file_path name room w of
        (Inl e, w') \<Rightarrow> students_run file_path ops w'
      | (Inr student, w') \<Rightarrow> student_id student # students_run file_path ops w')"
| "students_run file_path (Delete i # ops) w =
     students_run file_path ops (snd (students_delete file_path i w))"

section \<open>Well-formed collections\<close>

text \<open>
  The data model of the specification, read off the raw records: the collection a
  path holds (none for a missing file), the integer id of a record, and the typed
  student a record stands for. A path is readable when it names no file or a JSON
  array of records.
\<close>

definition stored :: "string \<Rightarrow> world \<Rightarrow> raw list" where
  "stored file_path w = (case files w file_path of Some (Doc items) \<Rightarrow> items | _ \<Rightarrow> [])"

definition readable :: "string \<Rightarrow> world \<Rightarrow> bool" where
  "readable file_path w =
     (case files w file_path of None \<Rightarrow> True | Some (Doc items) \<Rightarrow> True | Some _ \<Rightarrow> False)"

definition id_of :: "raw \<Rightarrow> int option" where
  "id_of r = (case map_of r ''id'' of Some (JInt i) \<Rightarrow> Some i | _ \<Rightarrow> None)"

definition has_int_ids :: "raw list \<Rightarrow> bool" where
  "has_int_ids items = list_all (\<lambda>r. id_of r \<noteq> None) items"

definition ids_of :: "raw list \<Rightarrow> int list" where
  "ids_of items = List.map_filter id_of items"

text \<open>\<open>max(ids, default 0)\<close>.\<close>

definition max_default :: "int list \<Rightarrow> int" where
  "max_default xs = (case xs of [] \<Rightarrow> 0 | x # ys \<Rightarrow> fold max ys x)"

definition typed_student :: "raw \<Rightarrow> Student option" where
  "typed_student s =
     (case (map_of s ''id'', map_of s ''name'', map_of s ''room'') of
        (Some (JInt i), Some (JStr n), Some (JInt r)) \<Rightarrow>
          Some \<lparr>student_id = i, student_name = n, student_room = r\<rparr>
      | _ \<Rightarrow> None)"

definition passes :: "int list option \<Rightarrow> int \<Rightarrow> bool" where
  "passes flt x = (case flt of None \<Rightarrow> True | Some xs \<Rightarrow> x \<in> set xs)"

text \<open>
  A run in which no delete removes the record that holds the largest id of the
  collection at that moment.
\<close>

definition largest_id :: "raw list \<Rightarrow> int option" where
  "largest_id items = (case ids_of items of [] \<Rightarrow> None | x # ys \<Rightarrow> Some (fold max ys x))"

fun rooms_keep_largest :: "string \<Rightarrow> string op list \<Rightarrow> world \<Rightarrow> bool" where
  "rooms_keep_largest file_path [] w = True"
| "rooms_keep_largest file_path (Create name # ops) w =
     rooms_keep_largest file_path ops (snd (rooms_create file_path name w))"
| "rooms_keep_largest file_path (Delete i # ops) w =
     (largest_id (stored file_path w) \<noteq> Some i
      \<and> rooms_keep_largest file_path ops (snd (rooms_delete file_path i w)))"

fun students_keep_largest :: "string \<Rightarrow> (string \<times> int) op list \<Rightarrow> world \<Rightarrow> bool" where
  "students_keep_largest file_path [] w = True"
| "students_keep_largest file_path (Create (name, room) # ops) w =
     students_keep_largest file_path ops (snd (students_create file_path name room w))"
| "students_keep_largest file_path (Delete i # ops) w =
     (largest_id (stored file_path w) \<noteq> Some i
      \<and> students_keep_largest file_path ops (snd (students_delete file_path i w)))"

section \<open>Theorems\<close>

text \<open>
  A rooms file whose bytes are not UTF-8 text, and one nested beyond the recursion
  limit of the parser: read raises \<^verbatim>\<open>UnicodeDecodeError\<close> and
  \<^verbatim>\<open>RecursionError\<close>, not the \<^verbatim>\<open>RepositoryError\<close> that names the path.
\<close>

theorem read_unparsable_counterexample:
  "repo_read ''rooms.json'' \<lparr>files = [''rooms.json'' \<mapsto> Undecodable], writes = []\<rparr> = Inl UnicodeDecodeError
   \<and> repo_read ''rooms.json'' \<lparr>files = [''rooms.json'' \<mapsto> Undecodable], writes = []\<rparr> \<noteq> Inl (RepositoryError ''Invalid JSON in rooms.json'')
   \<and> repo_read ''rooms.json'' \<lparr>files = [''rooms.json'' \<mapsto> TooDeep], writes = []\<rparr> = Inl RecursionError
   \<and> repo_read ''rooms.json'' \<lparr>files = [''rooms.json'' \<mapsto> TooDeep], writes = []\<rparr> \<noteq> Inl (RepositoryError ''Invalid JSON in rooms.json'')"
  by (simp add: repo_read_def)

text \<open>
  C4, as the code has it. Reading a path that names no file gives the empty list and
  no error. Reading a file that the JSON parser rejects with
  \<^verbatim>\<open>json.JSONDecodeError\<close> raises \<^verbatim>\<open>RepositoryError\<close>, the one exception class the
  module defines, with a message that ends in the path. A file that is not UTF-8
  text raises \<^verbatim>\<open>UnicodeDecodeError\<close> and a file nested too deeply raises
  \<^verbatim>\<open>RecursionError\<close>, as they are. A file that is not a JSON array of records never
  gives a list, so in particular not the empty one.
\<close>

theorem read_missing_and_unparsable:
  "(files w file_path = None \<longrightarrow> repo_read file_path w = Inr [])
   \<and> (files w file_path = Some Malformed \<longrightarrow>
        repo_read file_path w = Inl (RepositoryError (''Invalid JSON in '' @ file_path)))
   \<and> (files w file_path = Some Undecodable \<longrightarrow> repo_read file_path w = Inl UnicodeDecodeError)
   \<and> (files w file_path = Some TooDeep \<longrightarrow> repo_read file_path w = Inl RecursionError)
   \<and> (files w file_path \<noteq> None \<and> (\<forall>items. files w file_path \<noteq> Some (Doc items)) \<longrightarrow>
        (\<forall>items. repo_read file_path w \<noteq> Inr items))"
proof (intro conjI impI)
  assume "files w file_path \<noteq> None \<and> (\<forall>items. files w file_path \<noteq> Some (Doc items))"
  then obtain c where c: "files w file_path = Some c" and nd: "\<forall>items. c \<noteq> Doc items"
    by auto
  show "\<forall>items. repo_read file_path w \<noteq> Inr items"
    using c nd by (cases c) (simp_all add: repo_read_def)
qed (simp_all add: repo_read_def)

theorem read_missing_and_unparsable_witness:
  "repo_read ''rooms.json'' \<lparr>files = Map.empty, writes = []\<rparr> = Inr []
   \<and> repo_read ''rooms.json'' \<lparr>files = [''rooms.json'' \<mapsto> Malformed], writes = []\<rparr> = Inl (RepositoryError ''Invalid JSON in rooms.json'')
   \<and> repo_read ''rooms.json'' \<lparr>files = [''rooms.json'' \<mapsto> Undecodable], writes = []\<rparr> = Inl UnicodeDecodeError
   \<and> repo_read ''rooms.json'' \<lparr>files = [''rooms.json'' \<mapsto> TooDeep], writes = []\<rparr> = Inl RecursionError
   \<and> repo_read ''rooms.json'' \<lparr>files = [''rooms.json'' \<mapsto> Malformed], writes = []\<rparr> \<noteq> Inr []"
  using read_missing_and_unparsable [of "\<lparr>files = Map.empty, writes = []\<rparr>" "''rooms.json''"]
        read_missing_and_unparsable [of "\<lparr>files = [''rooms.json'' \<mapsto> Malformed], writes = []\<rparr>" "''rooms.json''"]
        read_missing_and_unparsable [of "\<lparr>files = [''rooms.json'' \<mapsto> Undecodable], writes = []\<rparr>" "''rooms.json''"]
        read_missing_and_unparsable [of "\<lparr>files = [''rooms.json'' \<mapsto> TooDeep], writes = []\<rparr>" "''rooms.json''"]
  by simp

subsection \<open>Reading and writing\<close>

lemma repo_read_readable: "readable file_path w \<Longrightarrow> repo_read file_path w = Inr (stored file_path w)"
  by (simp add: readable_def repo_read_def stored_def split: option.splits content.splits)

lemma stored_repo_write: "stored file_path (repo_write file_path items w) = items"
  by (simp add: stored_def repo_write_def)

lemma readable_repo_write: "readable file_path (repo_write file_path items w)"
  by (simp add: readable_def repo_write_def)

subsection \<open>Identifiers\<close>

lemma id_of_SomeD: "id_of r = Some i \<Longrightarrow> map_of r ''id'' = Some (JInt i)"
  by (auto simp: id_of_def split: option.splits jval.splits)

lemma dict_get_id_of: "dict_get r ''id'' = JInt i \<longleftrightarrow> id_of r = Some i"
  by (auto simp: id_of_def dict_get_def split: option.splits jval.splits)

lemma ids_of_Nil: "ids_of [] = []"
  by (simp add: ids_of_def map_filter_simps)

lemma ids_of_Cons: "ids_of (r # rs) = (case id_of r of None \<Rightarrow> ids_of rs | Some i \<Rightarrow> i # ids_of rs)"
  by (simp add: ids_of_def map_filter_simps split: option.splits)

lemma set_ids_of: "set (ids_of items) = {i. \<exists>r \<in> set items. id_of r = Some i}"
  by (induction items) (auto simp: ids_of_Nil ids_of_Cons split: option.splits)

lemma ids_of_append: "ids_of (xs @ ys) = ids_of xs @ ids_of ys"
  by (simp add: ids_of_def map_filter_def)

lemma max_ids_int:
  "has_int_ids items \<Longrightarrow>
   max_ids (Some (JInt m)) items = Inr (Some (JInt (fold max (ids_of items) m)))"
proof (induction items arbitrary: m)
  case Nil
  then show ?case by (simp add: ids_of_Nil)
next
  case (Cons r rs)
  then obtain i where i: "id_of r = Some i" and rs: "has_int_ids rs"
    by (auto simp: has_int_ids_def)
  from Cons.IH [OF rs] i show ?case
    by (simp add: dict_item_def id_of_SomeD ids_of_Cons max_def)
qed

lemma next_id_int:
  assumes "has_int_ids items"
  shows "next_id items = Inr (1 + max_default (ids_of items))"
proof (cases items)
  case Nil
  then show ?thesis by (simp add: next_id_def max_default_def ids_of_Nil)
next
  case (Cons r rs)
  with assms obtain i where i: "id_of r = Some i" and rs: "has_int_ids rs"
    by (auto simp: has_int_ids_def)
  show ?thesis using Cons i max_ids_int [OF rs, of i]
    by (simp add: next_id_def dict_item_def id_of_SomeD ids_of_Cons max_default_def)
qed

lemma max_default_Max:
  assumes "xs \<noteq> []"
  shows "max_default xs = Max (set xs)"
proof (cases xs)
  case Nil
  with assms show ?thesis by simp
next
  case (Cons a list)
  then show ?thesis using Max.set_eq_fold [of a list] by (simp add: max_default_def)
qed

lemma max_default_upper: "x \<in> set xs \<Longrightarrow> x \<le> max_default xs"
  using max_default_Max [of xs] by (cases "xs = []") auto

subsection \<open>create\<close>

lemma rooms_create_int:
  assumes "readable file_path w" and "has_int_ids (stored file_path w)"
  shows "rooms_create file_path name w =
    (Inr \<lparr>room_id = 1 + max_default (ids_of (stored file_path w)), room_name = name\<rparr>,
     repo_write file_path
       (stored file_path w @
          [[(''id'', JInt (1 + max_default (ids_of (stored file_path w)))), (''name'', JStr name)]]) w)"
  using assms
  by (simp add: rooms_create_def repo_read_readable next_id_int room_of_items_def dict_item_def)

lemma students_create_int:
  assumes "readable file_path w" and "has_int_ids (stored file_path w)"
  shows "students_create file_path name room w =
    (Inr \<lparr>student_id = 1 + max_default (ids_of (stored file_path w)), student_name = name,
          student_room = room\<rparr>,
     repo_write file_path
       (stored file_path w @
          [[(''id'', JInt (1 + max_default (ids_of (stored file_path w)))), (''name'', JStr name),
            (''room'', JInt room)]]) w)"
  using assms
  by (simp add: students_create_def repo_read_readable next_id_int student_of_items_def dict_item_def)

text \<open>
  C5. On a readable file whose records all carry an integer id, create of either
  repository assigns \<open>1 + max(existing ids, default 0)\<close>, writes back the
  collection with the new record appended at the end, and returns the new record;
  on an empty collection the id is 1.
\<close>

theorem create_assigns_next_id:
  assumes "readable file_path w" and "has_int_ids (stored file_path w)"
  shows "(let n = 1 + max_default (ids_of (stored file_path w)) in
           rooms_create file_path name w =
             (Inr \<lparr>room_id = n, room_name = name\<rparr>,
              w\<lparr>files := (files w)(file_path \<mapsto>
                    Doc (stored file_path w @ [[(''id'', JInt n), (''name'', JStr name)]])),
                writes := writes w @ [file_path]\<rparr>)
           \<and> students_create file_path name room w =
             (Inr \<lparr>student_id = n, student_name = name, student_room = room\<rparr>,
              w\<lparr>files := (files w)(file_path \<mapsto>
                    Doc (stored file_path w @
                         [[(''id'', JInt n), (''name'', JStr name), (''room'', JInt room)]])),
                writes := writes w @ [file_path]\<rparr>)
           \<and> (stored file_path w = [] \<longrightarrow> n = 1))"
  using rooms_create_int [OF assms, of name] students_create_int [OF assms, of name room]
  by (simp add: Let_def repo_write_def max_default_def ids_of_Nil)

theorem create_assigns_next_id_witness:
  "readable ''rooms.json''
     \<lparr>files = [''rooms.json'' \<mapsto> Doc [[(''id'', JInt 4), (''name'', JStr ''A'')],
                                        [(''id'', JInt 2), (''name'', JStr ''B'')]]],
      writes = []\<rparr>
   \<and> has_int_ids (stored ''rooms.json''
     \<lparr>files = [''rooms.json'' \<mapsto> Doc [[(''id'', JInt 4), (''name'', JStr ''A'')],
                                        [(''id'', JInt 2), (''name'', JStr ''B'')]]],
      writes = []\<rparr>)
   \<and> fst (rooms_create ''rooms.json'' ''C''
     \<lparr>files = [''rooms.json'' \<mapsto> Doc [[(''id'', JInt 4), (''name'', JStr ''A'')],
                                        [(''id'', JInt 2), (''name'', JStr ''B'')]]],
      writes = []\<rparr>) = Inr \<lparr>room_id = 5, room_name = ''C''\<rparr>
   \<and> fst (students_create ''rooms.json'' ''C'' 7
     \<lparr>files = [''rooms.json'' \<mapsto> Doc [[(''id'', JInt 4), (''name'', JStr ''A'')],
                                        [(''id'', JInt 2), (''name'', JStr ''B'')]]],
      writes = []\<rparr>) = Inr \<lparr>student_id = 5, student_name = ''C'', student_room = 7\<rparr>"
  using create_assigns_next_id [of "''rooms.json''"
      "\<lparr>files = [''rooms.json'' \<mapsto> Doc [[(''id'', JInt 4), (''name'', JStr ''A'')],
                                          [(''id'', JInt 2), (''name'', JStr ''B'')]]],
        writes = []\<rparr>" "''C''" 7]
  by (simp add: readable_def stored_def has_int_ids_def id_of_def Let_def ids_of_def
        map_filter_simps max_default_def)

subsection \<open>update, delete and move\<close>

lemma update_first_absent:
  "i \<notin> set (ids_of items) \<Longrightarrow> update_first i f items = None"
  by (induction items) (auto simp: ids_of_Cons dict_get_id_of split: option.splits)

lemma filter_absent:
  "i \<notin> set (ids_of items) \<Longrightarrow> filter (\<lambda>r. dict_get r ''id'' \<noteq> JInt i) items = items"
  by (induction items) (auto simp: ids_of_Cons dict_get_id_of split: option.splits)

lemma filter_present:
  assumes "i \<in> set (ids_of items)"
  shows "length (filter (\<lambda>r. dict_get r ''id'' \<noteq> JInt i) items) < length items"
proof -
  from assms obtain r where "r \<in> set items" "id_of r = Some i"
    by (auto simp: set_ids_of)
  then have "r \<in> set items" "\<not> dict_get r ''id'' \<noteq> JInt i"
    by (simp_all add: dict_get_id_of)
  then show ?thesis
    by (rule length_filter_less)
qed


lemma delete_filter_eq:
  "filter (\<lambda>r. dict_get r ''id'' \<noteq> JInt i) items = filter (\<lambda>r. id_of r \<noteq> Some i) items"
  by (simp add: dict_get_id_of)

lemma rooms_delete_absent:
  assumes "readable file_path w" and "i \<notin> set (ids_of (stored file_path w))"
  shows "rooms_delete file_path i w = (Inr False, w)"
  using assms by (simp add: rooms_delete_def repo_read_readable filter_absent)

lemma students_delete_absent:
  assumes "readable file_path w" and "i \<notin> set (ids_of (stored file_path w))"
  shows "students_delete file_path i w = (Inr False, w)"
  using assms by (simp add: students_delete_def repo_read_readable filter_absent)

lemma rooms_delete_present:
  assumes "readable file_path w" and "i \<in> set (ids_of (stored file_path w))"
  shows "rooms_delete file_path i w =
    (Inr True, repo_write file_path (filter (\<lambda>r. id_of r \<noteq> Some i) (stored file_path w)) w)"
proof -
  have "length (filter (\<lambda>r. dict_get r ''id'' \<noteq> JInt i) (stored file_path w))
          \<noteq> length (stored file_path w)"
    using filter_present [OF assms(2)] by simp
  then show ?thesis
    using assms(1) by (simp add: rooms_delete_def repo_read_readable Let_def delete_filter_eq)
qed

lemma students_delete_present:
  assumes "readable file_path w" and "i \<in> set (ids_of (stored file_path w))"
  shows "students_delete file_path i w =
    (Inr True, repo_write file_path (filter (\<lambda>r. id_of r \<noteq> Some i) (stored file_path w)) w)"
proof -
  have "length (filter (\<lambda>r. dict_get r ''id'' \<noteq> JInt i) (stored file_path w))
          \<noteq> length (stored file_path w)"
    using filter_present [OF assms(2)] by simp
  then show ?thesis
    using assms(1) by (simp add: students_delete_def repo_read_readable Let_def delete_filter_eq)
qed

lemma ids_of_filter_removed: "i \<notin> set (ids_of (filter (\<lambda>r. id_of r \<noteq> Some i) items))"
  by (simp add: set_ids_of)


lemma rooms_update_absent:
  assumes "readable file_path w" and "i \<notin> set (ids_of (stored file_path w))"
  shows "rooms_update file_path i name w = (Inr None, w)"
  using assms by (simp add: rooms_update_def repo_read_readable update_first_absent)

lemma students_update_absent:
  assumes "readable file_path w" and "i \<notin> set (ids_of (stored file_path w))"
  shows "students_update file_path i name room w = (Inr None, w)"
  using assms by (simp add: students_update_def repo_read_readable update_first_absent)

text \<open>
  C6. On a readable file in which no record carries the id, update of either
  repository returns \<^verbatim>\<open>None\<close> and leaves the files and the log of writes as they
  were: nothing is written.
\<close>

theorem update_absent_id_no_write:
  assumes "readable file_path w" and "i \<notin> set (ids_of (stored file_path w))"
  shows "rooms_update file_path i name w = (Inr None, w)
       \<and> students_update file_path i sname sroom w = (Inr None, w)"
  using rooms_update_absent [OF assms] students_update_absent [OF assms] by simp

theorem update_absent_id_no_write_witness:
  "readable ''students.json''
     \<lparr>files = [''students.json'' \<mapsto> Doc [[(''id'', JInt 1), (''name'', JStr ''Ann''), (''room'', JInt 1)]]],
      writes = []\<rparr>
   \<and> 5 \<notin> set (ids_of (stored ''students.json''
     \<lparr>files = [''students.json'' \<mapsto> Doc [[(''id'', JInt 1), (''name'', JStr ''Ann''), (''room'', JInt 1)]]],
      writes = []\<rparr>))
   \<and> rooms_update ''students.json'' 5 ''Lab''
     \<lparr>files = [''students.json'' \<mapsto> Doc [[(''id'', JInt 1), (''name'', JStr ''Ann''), (''room'', JInt 1)]]],
      writes = []\<rparr>
     = (Inr None,
     \<lparr>files = [''students.json'' \<mapsto> Doc [[(''id'', JInt 1), (''name'', JStr ''Ann''), (''room'', JInt 1)]]],
      writes = []\<rparr>)
   \<and> students_update ''students.json'' 5 (Some ''Bob'') (Some 2)
     \<lparr>files = [''students.json'' \<mapsto> Doc [[(''id'', JInt 1), (''name'', JStr ''Ann''), (''room'', JInt 1)]]],
      writes = []\<rparr>
     = (Inr None,
     \<lparr>files = [''students.json'' \<mapsto> Doc [[(''id'', JInt 1), (''name'', JStr ''Ann''), (''room'', JInt 1)]]],
      writes = []\<rparr>)"
  using update_absent_id_no_write [of "''students.json''"
     "\<lparr>files = [''students.json'' \<mapsto> Doc [[(''id'', JInt 1), (''name'', JStr ''Ann''), (''room'', JInt 1)]]],
      writes = []\<rparr>" 5 "''Lab''" "Some ''Bob''" "Some 2"]
  by (simp add: readable_def stored_def ids_of_def map_filter_simps id_of_def)

text \<open>
  C7. On a readable file, delete of an id that no record carries returns
  \<^verbatim>\<open>False\<close> and leaves the files and the log of writes as they were; delete of an
  id that some record carries returns \<^verbatim>\<open>True\<close> and writes back the collection
  without the records of that id, the others kept in order.
\<close>

theorem delete_absent_and_present:
  assumes "readable file_path w"
  shows "(i \<notin> set (ids_of (stored file_path w)) \<longrightarrow>
            rooms_delete file_path i w = (Inr False, w)
          \<and> students_delete file_path i w = (Inr False, w))
       \<and> (i \<in> set (ids_of (stored file_path w)) \<longrightarrow>
            rooms_delete file_path i w =
              (Inr True, repo_write file_path (filter (\<lambda>r. id_of r \<noteq> Some i) (stored file_path w)) w)
          \<and> students_delete file_path i w =
              (Inr True, repo_write file_path (filter (\<lambda>r. id_of r \<noteq> Some i) (stored file_path w)) w)
          \<and> i \<notin> set (ids_of (filter (\<lambda>r. id_of r \<noteq> Some i) (stored file_path w))))"
  using rooms_delete_absent [OF assms] students_delete_absent [OF assms]
        rooms_delete_present [OF assms] students_delete_present [OF assms]
        ids_of_filter_removed
  by blast

theorem delete_absent_and_present_witness:
  "readable ''rooms.json''
     \<lparr>files = [''rooms.json'' \<mapsto> Doc [[(''id'', JInt 1), (''name'', JStr ''A'')],
                                        [(''id'', JInt 2), (''name'', JStr ''B'')]]],
      writes = []\<rparr>
   \<and> rooms_delete ''rooms.json'' 5
     \<lparr>files = [''rooms.json'' \<mapsto> Doc [[(''id'', JInt 1), (''name'', JStr ''A'')],
                                        [(''id'', JInt 2), (''name'', JStr ''B'')]]],
      writes = []\<rparr>
     = (Inr False,
     \<lparr>files = [''rooms.json'' \<mapsto> Doc [[(''id'', JInt 1), (''name'', JStr ''A'')],
                                        [(''id'', JInt 2), (''name'', JStr ''B'')]]],
      writes = []\<rparr>)
   \<and> students_delete ''rooms.json'' 1
     \<lparr>files = [''rooms.json'' \<mapsto> Doc [[(''id'', JInt 1), (''name'', JStr ''A'')],
                                        [(''id'', JInt 2), (''name'', JStr ''B'')]]],
      writes = []\<rparr>
     = (Inr True,
     \<lparr>files = [''rooms.json'' \<mapsto> Doc [[(''id'', JInt 2), (''name'', JStr ''B'')]]],
      writes = [''rooms.json'']\<rparr>)"
  using delete_absent_and_present [of "''rooms.json''"
     "\<lparr>files = [''rooms.json'' \<mapsto> Doc [[(''id'', JInt 1), (''name'', JStr ''A'')],
                                        [(''id'', JInt 2), (''name'', JStr ''B'')]]],
      writes = []\<rparr>" 5]
    delete_absent_and_present [of "''rooms.json''"
     "\<lparr>files = [''rooms.json'' \<mapsto> Doc [[(''id'', JInt 1), (''name'', JStr ''A'')],
                                        [(''id'', JInt 2), (''name'', JStr ''B'')]]],
      writes = []\<rparr>" 1]
  by (simp add: readable_def stored_def ids_of_def map_filter_simps id_of_def repo_write_def)

text \<open>
  C9. move returns what update with only the room supplied returns, and leaves the
  same files.
\<close>

theorem move_is_update_room:
  "students_move file_path sid to_room_id w = students_update file_path sid None (Some to_room_id) w"
  by (simp add: students_move_def)

subsection \<open>The loader of the combined view\<close>

lemma load_missing: "files w file_path = None \<Longrightarrow> load file_path w = Inl (FileNotFoundError file_path)"
  by (simp add: load_def)

lemma load_doc: "files w file_path = Some (Doc items) \<Longrightarrow> load file_path w = Inr items"
  by (simp add: load_def)

lemma load_malformed: "files w file_path = Some Malformed \<Longrightarrow> load file_path w = Inl JSONDecodeError"
  by (simp add: load_def)

lemma combined_list_rooms_missing:
  "files w rooms_path = None \<Longrightarrow>
   combined_list rooms_path students_path w = Inl (FileNotFoundError rooms_path)"
  by (simp add: combined_list_def load_missing)

lemma combined_list_students_missing:
  "files w rooms_path = Some (Doc rooms) \<Longrightarrow> files w students_path = None \<Longrightarrow>
   combined_list rooms_path students_path w = Inl (FileNotFoundError students_path)"
  by (simp add: combined_list_def load_missing load_doc)

lemma combined_list_rooms_malformed:
  "files w rooms_path = Some Malformed \<Longrightarrow>
   combined_list rooms_path students_path w = Inl JSONDecodeError"
  by (simp add: combined_list_def load_malformed)

lemma load_unparsable:
  assumes "files w file_path = Some c" and "\<forall>items. c \<noteq> Doc items"
  shows "\<exists>e. load file_path w = Inl e"
  using assms by (cases c) (simp_all add: load_def)

lemma combined_list_rooms_error:
  "load rooms_path w = Inl e \<Longrightarrow> combined_list rooms_path students_path w = Inl e"
  by (simp add: combined_list_def)

text \<open>
  C10. \<^verbatim>\<open>JsonDataLoader.load\<close> on a path that names no file raises
  \<^verbatim>\<open>FileNotFoundError\<close> where the repositories' read returns the empty list. The
  combined view raises it for a missing rooms file, and for a missing students file
  once the rooms file has loaded; with either file missing the view never returns a
  result.
\<close>

theorem loader_missing_file:
  "(files w file_path = None \<longrightarrow>
      load file_path w = Inl (FileNotFoundError file_path) \<and> repo_read file_path w = Inr [])
   \<and> (files w rooms_path = None \<longrightarrow>
      combined_list rooms_path students_path w = Inl (FileNotFoundError rooms_path))
   \<and> (files w students_path = None \<and> (\<exists>rooms. files w rooms_path = Some (Doc rooms)) \<longrightarrow>
      combined_list rooms_path students_path w = Inl (FileNotFoundError students_path))
   \<and> (files w rooms_path = None \<or> files w students_path = None \<longrightarrow>
      (\<exists>e. combined_list rooms_path students_path w = Inl e))"
proof (intro conjI impI)
  assume "files w file_path = None"
  then show "load file_path w = Inl (FileNotFoundError file_path)" by (rule load_missing)
next
  assume "files w file_path = None"
  then show "repo_read file_path w = Inr []" by (simp add: repo_read_def)
next
  assume "files w rooms_path = None"
  then show "combined_list rooms_path students_path w = Inl (FileNotFoundError rooms_path)"
    by (rule combined_list_rooms_missing)
next
  assume "files w students_path = None \<and> (\<exists>rooms. files w rooms_path = Some (Doc rooms))"
  then show "combined_list rooms_path students_path w = Inl (FileNotFoundError students_path)"
    using combined_list_students_missing by blast
next
  assume a: "files w rooms_path = None \<or> files w students_path = None"
  show "\<exists>e. combined_list rooms_path students_path w = Inl e"
  proof (cases "files w rooms_path")
    case None
    then show ?thesis using combined_list_rooms_missing by blast
  next
    case (Some c)
    with a have s: "files w students_path = None" by simp
    show ?thesis
    proof (cases "\<exists>rooms. c = Doc rooms")
      case True
      with Some s show ?thesis using combined_list_students_missing by blast
    next
      case False
      then obtain e where "load rooms_path w = Inl e"
        using load_unparsable [OF Some] by blast
      then show ?thesis using combined_list_rooms_error by blast
    qed
  qed
qed

theorem loader_missing_file_witness:
  "load ''students.json'' \<lparr>files = [''rooms.json'' \<mapsto> Doc []], writes = []\<rparr>
     = Inl (FileNotFoundError ''students.json'')
   \<and> repo_read ''students.json'' \<lparr>files = [''rooms.json'' \<mapsto> Doc []], writes = []\<rparr> = Inr []
   \<and> combined_list ''rooms.json'' ''students.json'' \<lparr>files = [''rooms.json'' \<mapsto> Doc []], writes = []\<rparr>
     = Inl (FileNotFoundError ''students.json'')
   \<and> combined_list ''students.json'' ''rooms.json'' \<lparr>files = [''rooms.json'' \<mapsto> Doc []], writes = []\<rparr>
     = Inl (FileNotFoundError ''students.json'')"
  using loader_missing_file [of "\<lparr>files = [''rooms.json'' \<mapsto> Doc []], writes = []\<rparr>"
          "''students.json''" "''rooms.json''" "''students.json''"]
        loader_missing_file [of "\<lparr>files = [''rooms.json'' \<mapsto> Doc []], writes = []\<rparr>"
          "''students.json''" "''students.json''" "''rooms.json''"]
  by simp

subsection \<open>Keys of a created student\<close>

text \<open>
  The record that create of the students repository appends to an empty file has the
  keys id, name and room and no others: it has neither a sex nor a birthday key.
\<close>

theorem student_create_keys_counterexample:
  "map fst (last (stored ''students.json''
      (snd (students_create ''students.json'' ''Ann'' 1 \<lparr>files = Map.empty, writes = []\<rparr>))))
     = [''id'', ''name'', ''room'']
   \<and> map_of (last (stored ''students.json''
      (snd (students_create ''students.json'' ''Ann'' 1 \<lparr>files = Map.empty, writes = []\<rparr>)))) ''sex''
     = None
   \<and> map_of (last (stored ''students.json''
      (snd (students_create ''students.json'' ''Ann'' 1 \<lparr>files = Map.empty, writes = []\<rparr>)))) ''birthday''
     = None"
  by (simp add: students_create_def repo_read_def next_id_def student_of_items_def dict_item_def
        repo_write_def stored_def)

text \<open>
  C8, as the code has it. The record that create of the students repository appends
  carries exactly the keys id, name and room, in this order; create takes a name and a
  room only and writes no sex or birthday. The records already in the file are written
  back as they were, with whatever keys they have.
\<close>

theorem student_create_keys:
  assumes "readable file_path w" and "has_int_ids (stored file_path w)"
  shows "map fst (last (stored file_path (snd (students_create file_path name room w))))
           = [''id'', ''name'', ''room'']
       \<and> butlast (stored file_path (snd (students_create file_path name room w)))
           = stored file_path w"
  using students_create_int [OF assms, of name room]
  by (simp add: stored_repo_write)

theorem student_create_keys_witness:
  "readable ''students.json''
     \<lparr>files = [''students.json'' \<mapsto> Doc [[(''id'', JInt 3), (''name'', JStr ''Ann''), (''room'', JInt 1),
                                            (''sex'', JStr ''F''), (''birthday'', JStr ''2004-01-07T00:00:00.000000'')]]],
      writes = []\<rparr>
   \<and> has_int_ids (stored ''students.json''
     \<lparr>files = [''students.json'' \<mapsto> Doc [[(''id'', JInt 3), (''name'', JStr ''Ann''), (''room'', JInt 1),
                                            (''sex'', JStr ''F''), (''birthday'', JStr ''2004-01-07T00:00:00.000000'')]]],
      writes = []\<rparr>)
   \<and> stored ''students.json'' (snd (students_create ''students.json'' ''Bob'' 2
     \<lparr>files = [''students.json'' \<mapsto> Doc [[(''id'', JInt 3), (''name'', JStr ''Ann''), (''room'', JInt 1),
                                            (''sex'', JStr ''F''), (''birthday'', JStr ''2004-01-07T00:00:00.000000'')]]],
      writes = []\<rparr>))
     = [[(''id'', JInt 3), (''name'', JStr ''Ann''), (''room'', JInt 1),
         (''sex'', JStr ''F''), (''birthday'', JStr ''2004-01-07T00:00:00.000000'')],
        [(''id'', JInt 4), (''name'', JStr ''Bob''), (''room'', JInt 2)]]"
  using student_create_keys [of "''students.json''"
     "\<lparr>files = [''students.json'' \<mapsto> Doc [[(''id'', JInt 3), (''name'', JStr ''Ann''), (''room'', JInt 1),
                                            (''sex'', JStr ''F''), (''birthday'', JStr ''2004-01-07T00:00:00.000000'')]]],
      writes = []\<rparr>" "''Bob''" 2]
  by (simp add: readable_def stored_def has_int_ids_def id_of_def students_create_def repo_read_def
        next_id_def dict_item_def student_of_items_def repo_write_def)

subsection \<open>Filtered listing\<close>

lemma typed_student_fields:
  assumes "typed_student s = Some st"
  shows "dict_get s ''id'' = JInt (student_id st)"
    and "dict_get s ''room'' = JInt (student_room st)"
    and "dict_get s ''name'' = JStr (student_name st)"
  using assms
  by (auto simp: typed_student_def dict_get_def split: option.splits jval.splits)

lemma student_of_get_typed: "typed_student s = Some st \<Longrightarrow> student_of_get s = Inr st"
  by (simp add: student_of_get_def typed_student_fields)

lemma filter_by_id_typed:
  "list_all (\<lambda>s. typed_student s \<noteq> None) items \<Longrightarrow>
   filter_by ''id'' ids items = Inr (filter (\<lambda>s. student_id (the (typed_student s)) \<in> set ids) items)"
proof (induction items)
  case Nil
  then show ?case by simp
next
  case (Cons s ss)
  then obtain st where st: "typed_student s = Some st" by auto
  from Cons have ih: "filter_by ''id'' ids ss
      = Inr (filter (\<lambda>s. student_id (the (typed_student s)) \<in> set ids) ss)" by simp
  show ?case by (simp add: ih st typed_student_fields(1) [OF st])
qed

lemma filter_by_room_typed:
  "list_all (\<lambda>s. typed_student s \<noteq> None) items \<Longrightarrow>
   filter_by ''room'' rs items = Inr (filter (\<lambda>s. student_room (the (typed_student s)) \<in> set rs) items)"
proof (induction items)
  case Nil
  then show ?case by simp
next
  case (Cons s ss)
  then obtain st where st: "typed_student s = Some st" by auto
  from Cons have ih: "filter_by ''room'' rs ss
      = Inr (filter (\<lambda>s. student_room (the (typed_student s)) \<in> set rs) ss)" by simp
  show ?case by (simp add: ih st typed_student_fields(2) [OF st])
qed

lemma normalize_typed:
  "list_all (\<lambda>s. typed_student s \<noteq> None) items \<Longrightarrow>
   normalize items = Inr (map (\<lambda>s. the (typed_student s)) items)"
proof (induction items)
  case Nil
  then show ?case by simp
next
  case (Cons s ss)
  then obtain st where st: "typed_student s = Some st" by auto
  from Cons have ih: "normalize ss = Inr (map (\<lambda>s. the (typed_student s)) ss)" by simp
  show ?case by (simp add: ih st student_of_get_typed [OF st])
qed

lemma map_filter_typed:
  "list_all (\<lambda>s. typed_student s \<noteq> None) items \<Longrightarrow>
   List.map_filter typed_student items = map (\<lambda>s. the (typed_student s)) items"
  by (induction items) (auto simp: map_filter_simps)

lemma list_all_filter: "list_all P xs \<Longrightarrow> list_all P (filter Q xs)"
  by (induction xs) auto

lemma passes_None: "passes None x = True"
  by (simp add: passes_def)

lemma passes_Some: "passes (Some xs) x = (x \<in> set xs)"
  by (simp add: passes_def)

lemma students_list_typed:
  assumes "readable file_path w" and "list_all (\<lambda>s. typed_student s \<noteq> None) (stored file_path w)"
  shows "students_list file_path ids_in room_in w =
     Inr (filter (\<lambda>st. passes ids_in (student_id st) \<and> passes room_in (student_room st))
            (List.map_filter typed_student (stored file_path w)))"
proof -
  let ?items = "stored file_path w"
  let ?T = "\<lambda>s. the (typed_student s)"
  let ?P = "\<lambda>s. passes ids_in (student_id (?T s))"
  let ?Q = "\<lambda>s. passes room_in (student_room (?T s))"
  have s1: "(case ids_in of None \<Rightarrow> Inr ?items | Some ids \<Rightarrow> filter_by ''id'' ids ?items)
      = Inr (filter ?P ?items)"
    by (cases ids_in) (simp_all add: passes_None passes_Some filter_by_id_typed [OF assms(2)])
  have t1: "list_all (\<lambda>s. typed_student s \<noteq> None) (filter ?P ?items)"
    using assms(2) by (rule list_all_filter)
  have s2: "(case room_in of None \<Rightarrow> Inr (filter ?P ?items)
             | Some rs \<Rightarrow> filter_by ''room'' rs (filter ?P ?items))
      = Inr (filter ?Q (filter ?P ?items))"
    by (cases room_in) (simp_all add: passes_None passes_Some filter_by_room_typed [OF t1])
  have t2: "list_all (\<lambda>s. typed_student s \<noteq> None) (filter ?Q (filter ?P ?items))"
    using t1 by (rule list_all_filter)
  have "students_list file_path ids_in room_in w = normalize (filter ?Q (filter ?P ?items))"
    by (simp add: students_list_def repo_read_readable [OF assms(1)] s1 s2)
  also have "\<dots> = Inr (map ?T (filter ?Q (filter ?P ?items)))"
    by (rule normalize_typed [OF t2])
  also have "map ?T (filter ?Q (filter ?P ?items))
      = filter (\<lambda>st. passes ids_in (student_id st) \<and> passes room_in (student_room st)) (map ?T ?items)"
    by (simp add: filter_map comp_def conj_commute)
  finally show ?thesis
    by (simp add: map_filter_typed [OF assms(2)])
qed


text \<open>
  With both filters supplied and empty, list returns no student, where list without
  filters returns all four.
\<close>

theorem list_empty_filter_counterexample:
  "students_list ''students.json'' (Some []) (Some []) 
     \<lparr>files = [''students.json'' \<mapsto> Doc
        [[(''id'', JInt 1), (''name'', JStr ''Ann''), (''room'', JInt 1)],
         [(''id'', JInt 3), (''name'', JStr ''Cy''), (''room'', JInt 1)],
         [(''id'', JInt 2), (''name'', JStr ''Bob''), (''room'', JInt 2)],
         [(''id'', JInt 4), (''name'', JStr ''Di''), (''room'', JInt 1)]]],
      writes = []\<rparr> = Inr []
   \<and> students_list ''students.json'' None None 
     \<lparr>files = [''students.json'' \<mapsto> Doc
        [[(''id'', JInt 1), (''name'', JStr ''Ann''), (''room'', JInt 1)],
         [(''id'', JInt 3), (''name'', JStr ''Cy''), (''room'', JInt 1)],
         [(''id'', JInt 2), (''name'', JStr ''Bob''), (''room'', JInt 2)],
         [(''id'', JInt 4), (''name'', JStr ''Di''), (''room'', JInt 1)]]],
      writes = []\<rparr>
     = Inr [\<lparr>student_id = 1, student_name = ''Ann'', student_room = 1\<rparr>,
            \<lparr>student_id = 3, student_name = ''Cy'', student_room = 1\<rparr>,
            \<lparr>student_id = 2, student_name = ''Bob'', student_room = 2\<rparr>,
            \<lparr>student_id = 4, student_name = ''Di'', student_room = 1\<rparr>]
   \<and> students_list ''students.json'' (Some []) (Some []) 
     \<lparr>files = [''students.json'' \<mapsto> Doc
        [[(''id'', JInt 1), (''name'', JStr ''Ann''), (''room'', JInt 1)],
         [(''id'', JInt 3), (''name'', JStr ''Cy''), (''room'', JInt 1)],
         [(''id'', JInt 2), (''name'', JStr ''Bob''), (''room'', JInt 2)],
         [(''id'', JInt 4), (''name'', JStr ''Di''), (''room'', JInt 1)]]],
      writes = []\<rparr>
     \<noteq> students_list ''students.json'' None None 
     \<lparr>files = [''students.json'' \<mapsto> Doc
        [[(''id'', JInt 1), (''name'', JStr ''Ann''), (''room'', JInt 1)],
         [(''id'', JInt 3), (''name'', JStr ''Cy''), (''room'', JInt 1)],
         [(''id'', JInt 2), (''name'', JStr ''Bob''), (''room'', JInt 2)],
         [(''id'', JInt 4), (''name'', JStr ''Di''), (''room'', JInt 1)]]],
      writes = []\<rparr>"
  by (simp add: students_list_def repo_read_def student_of_get_def dict_get_def)

text \<open>
  C3, as the code has it. On a readable file of well-typed student records, list
  returns, in file order, exactly the students whose id passes the ids filter and
  whose room passes the room filter. A filter that is not supplied lets every student
  pass, so list without filters returns the whole collection; a filter that is
  supplied and empty lets no student pass, so the result is empty.
\<close>

theorem list_filters:
  assumes "readable file_path w"
    and "list_all (\<lambda>s. typed_student s \<noteq> None) (stored file_path w)"
  shows "students_list file_path ids_in room_in w =
           Inr (filter (\<lambda>st. passes ids_in (student_id st) \<and> passes room_in (student_room st))
                  (List.map_filter typed_student (stored file_path w)))
       \<and> students_list file_path None None w
           = Inr (List.map_filter typed_student (stored file_path w))
       \<and> students_list file_path (Some []) room_in w = Inr []
       \<and> students_list file_path ids_in (Some []) w = Inr []"
  by (simp add: students_list_typed [OF assms] passes_None passes_Some)

theorem list_filters_witness:
  "readable ''students.json'' 
     \<lparr>files = [''students.json'' \<mapsto> Doc
        [[(''id'', JInt 1), (''name'', JStr ''Ann''), (''room'', JInt 1)],
         [(''id'', JInt 3), (''name'', JStr ''Cy''), (''room'', JInt 1)],
         [(''id'', JInt 2), (''name'', JStr ''Bob''), (''room'', JInt 2)],
         [(''id'', JInt 4), (''name'', JStr ''Di''), (''room'', JInt 1)]]],
      writes = []\<rparr>
   \<and> list_all (\<lambda>s. typed_student s \<noteq> None) (stored ''students.json'' 
     \<lparr>files = [''students.json'' \<mapsto> Doc
        [[(''id'', JInt 1), (''name'', JStr ''Ann''), (''room'', JInt 1)],
         [(''id'', JInt 3), (''name'', JStr ''Cy''), (''room'', JInt 1)],
         [(''id'', JInt 2), (''name'', JStr ''Bob''), (''room'', JInt 2)],
         [(''id'', JInt 4), (''name'', JStr ''Di''), (''room'', JInt 1)]]],
      writes = []\<rparr>)
   \<and> students_list ''students.json'' (Some [2, 3]) (Some [1]) 
     \<lparr>files = [''students.json'' \<mapsto> Doc
        [[(''id'', JInt 1), (''name'', JStr ''Ann''), (''room'', JInt 1)],
         [(''id'', JInt 3), (''name'', JStr ''Cy''), (''room'', JInt 1)],
         [(''id'', JInt 2), (''name'', JStr ''Bob''), (''room'', JInt 2)],
         [(''id'', JInt 4), (''name'', JStr ''Di''), (''room'', JInt 1)]]],
      writes = []\<rparr>
     = Inr [\<lparr>student_id = 3, student_name = ''Cy'', student_room = 1\<rparr>]
   \<and> students_list ''students.json'' None (Some [1]) 
     \<lparr>files = [''students.json'' \<mapsto> Doc
        [[(''id'', JInt 1), (''name'', JStr ''Ann''), (''room'', JInt 1)],
         [(''id'', JInt 3), (''name'', JStr ''Cy''), (''room'', JInt 1)],
         [(''id'', JInt 2), (''name'', JStr ''Bob''), (''room'', JInt 2)],
         [(''id'', JInt 4), (''name'', JStr ''Di''), (''room'', JInt 1)]]],
      writes = []\<rparr>
     = Inr [\<lparr>student_id = 1, student_name = ''Ann'', student_room = 1\<rparr>,
            \<lparr>student_id = 3, student_name = ''Cy'', student_room = 1\<rparr>,
            \<lparr>student_id = 4, student_name = ''Di'', student_room = 1\<rparr>]"
  using list_filters [of "''students.json''" "
     \<lparr>files = [''students.json'' \<mapsto> Doc
        [[(''id'', JInt 1), (''name'', JStr ''Ann''), (''room'', JInt 1)],
         [(''id'', JInt 3), (''name'', JStr ''Cy''), (''room'', JInt 1)],
         [(''id'', JInt 2), (''name'', JStr ''Bob''), (''room'', JInt 2)],
         [(''id'', JInt 4), (''name'', JStr ''Di''), (''room'', JInt 1)]]],
      writes = []\<rparr>" "Some [2, 3]" "Some [1]"]
        list_filters [of "''students.json''" "
     \<lparr>files = [''students.json'' \<mapsto> Doc
        [[(''id'', JInt 1), (''name'', JStr ''Ann''), (''room'', JInt 1)],
         [(''id'', JInt 3), (''name'', JStr ''Cy''), (''room'', JInt 1)],
         [(''id'', JInt 2), (''name'', JStr ''Bob''), (''room'', JInt 2)],
         [(''id'', JInt 4), (''name'', JStr ''Di''), (''room'', JInt 1)]]],
      writes = []\<rparr>" None "Some [1]"]
  by (simp add: readable_def stored_def typed_student_def map_filter_simps passes_None passes_Some)

subsection \<open>The combiner\<close>

lemma update_fresh: "k \<notin> fst ` set d \<Longrightarrow> AList.update k v d = d @ [(k, v)]"
  by (induction d) auto

lemma update_distinct_map:
  "distinct (map fst d) \<Longrightarrow> map_of d k = Some e \<Longrightarrow>
   AList.update k v d = map (\<lambda>(k', e'). if k' = k then (k', v) else (k', e')) d"
proof (induction d)
  case Nil
  then show ?case by simp
next
  case (Cons p d)
  obtain k0 e0 where p: "p = (k0, e0)" by (cases p)
  show ?case
  proof (cases "k0 = k")
    case True
    have "map (\<lambda>(k', e'). if k' = k then (k', v) else (k', e')) d = d"
      using Cons.prems(1) p True by (intro map_idI) (auto simp: image_iff)
    with True p show ?thesis by simp
  next
    case False
    with Cons p show ?thesis by simp
  qed
qed

lemma build_room_dict_fresh:
  "list_all (\<lambda>r. map_of r ''id'' \<noteq> None \<and> map_of r ''name'' \<noteq> None) rooms \<Longrightarrow>
   distinct (map fst d @ map (\<lambda>r. dict_get r ''id'') rooms) \<Longrightarrow>
   build_room_dict d rooms =
     Inr (d @ map (\<lambda>r. (dict_get r ''id'',
                   \<lparr>combined_id = dict_get r ''id'', combined_name = dict_get r ''name'',
                    combined_students = []\<rparr>)) rooms)"
proof (induction rooms arbitrary: d)
  case Nil
  then show ?case by simp
next
  case (Cons r rooms)
  from Cons.prems(1) obtain k n where k: "map_of r ''id'' = Some k" and n: "map_of r ''name'' = Some n"
    by auto
  have gk: "dict_get r ''id'' = k" and gn: "dict_get r ''name'' = n"
    using k n by (simp_all add: dict_get_def)
  let ?e = "\<lparr>combined_id = k, combined_name = n, combined_students = []\<rparr>"
  have fresh: "k \<notin> fst ` set d" using Cons.prems(2) gk by auto
  have d': "AList.update k ?e d = d @ [(k, ?e)]" using fresh by (rule update_fresh)
  have dist: "distinct (map fst (d @ [(k, ?e)]) @ map (\<lambda>r. dict_get r ''id'') rooms)"
    using Cons.prems(2) gk by auto
  have rest: "list_all (\<lambda>r. map_of r ''id'' \<noteq> None \<and> map_of r ''name'' \<noteq> None) rooms"
    using Cons.prems(1) by simp
  show ?case
    using Cons.IH [OF rest dist] by (simp add: dict_item_def k n gk gn d')
qed


lemma add_students_distinct:
  "list_all (\<lambda>s. map_of s ''room'' \<noteq> None \<and> map_of s ''id'' \<noteq> None \<and> map_of s ''name'' \<noteq> None)
     students \<Longrightarrow>
   distinct (map fst d) \<Longrightarrow>
   add_students d students =
     Inr (map (\<lambda>(k, e). (k, e\<lparr>combined_students := combined_students e @
            map (\<lambda>s. \<lparr>entry_id = dict_get s ''id'', entry_name = dict_get s ''name''\<rparr>)
              (filter (\<lambda>s. dict_get s ''room'' = k) students)\<rparr>)) d)"
proof (induction students arbitrary: d)
  case Nil
  then show ?case by simp
next
  case (Cons s ss)
  let ?entry = "\<lambda>s. \<lparr>entry_id = dict_get s ''id'', entry_name = dict_get s ''name''\<rparr>"
  let ?F = "\<lambda>students (k, e). (k, e\<lparr>combined_students := combined_students e @
            map ?entry (filter (\<lambda>s. dict_get s ''room'' = k) students)\<rparr>)"
  from Cons.prems(1) obtain rid i n where
    rid: "map_of s ''room'' = Some rid" and i: "map_of s ''id'' = Some i" and n: "map_of s ''name'' = Some n"
    by auto
  have g: "dict_get s ''room'' = rid" "dict_get s ''id'' = i" "dict_get s ''name'' = n"
    using rid i n by (simp_all add: dict_get_def)
  have rest: "list_all (\<lambda>s. map_of s ''room'' \<noteq> None \<and> map_of s ''id'' \<noteq> None \<and> map_of s ''name'' \<noteq> None) ss"
    using Cons.prems(1) by simp
  show ?case
  proof (cases "map_of d rid")
    case None
    then have fresh: "rid \<notin> fst ` set d" by (simp add: map_of_eq_None_iff)
    have "map (?F ss) d = map (?F (s # ss)) d"
    proof (rule map_cong [OF refl])
      fix p assume "p \<in> set d"
      with fresh have "fst p \<noteq> rid" by auto
      then show "?F ss p = ?F (s # ss) p" by (cases p) (simp add: g)
    qed
    then have eq: "map (?F ss) d = map (?F (s # ss)) d" .
    have "add_students d (s # ss) = add_students d ss"
      by (simp add: dict_item_def rid None)
    also have "\<dots> = Inr (map (?F ss) d)"
      by (rule Cons.IH [OF rest Cons.prems(2)])
    finally show ?thesis
      by (simp only: eq)
  next
    case (Some entry)
    let ?entry' = "entry\<lparr>combined_students := combined_students entry @ [\<lparr>entry_id = i, entry_name = n\<rparr>]\<rparr>"
    let ?G = "\<lambda>(k', e'). if k' = rid then (k', ?entry') else (k', e')"
    have d': "AList.update rid ?entry' d = map ?G d"
      using Cons.prems(2) Some by (rule update_distinct_map)
    have fG: "\<And>p. fst (?G p) = fst p" by (simp split: prod.splits)
    have dist: "distinct (map fst (map ?G d))"
      using Cons.prems(2) by (simp add: comp_def fG)
    have eq: "map (?F ss) (map ?G d) = map (?F (s # ss)) d"
      unfolding map_map
    proof (rule map_cong [OF refl])
      fix p assume p: "p \<in> set d"
      obtain k e where pe: "p = (k, e)" by (cases p)
      show "(?F ss \<circ> ?G) p = ?F (s # ss) p"
      proof (cases "k = rid")
        case True
        with p pe Cons.prems(2) have "map_of d rid = Some e" by (simp add: map_of_is_SomeI)
        with Some have "e = entry" by simp
        with True pe show ?thesis by (simp add: g)
      next
        case False
        with pe show ?thesis by (simp add: g)
      qed
    qed
    have "add_students d (s # ss) = add_students (map ?G d) ss"
      by (simp add: dict_item_def rid i n Some d')
    also have "\<dots> = Inr (map (?F ss) (map ?G d))"
      by (rule Cons.IH [OF rest dist])
    finally show ?thesis
      by (simp only: eq)
  qed
qed


text \<open>
  C2. For rooms with an id and a name, pairwise distinct in their ids, and students
  with a room, an id and a name, combine returns one entry per room, in the order of
  the rooms, with the id and name of the room and, as its students, the id and name of
  every student whose room equals the id of the room, in the order of the students.
  A room that no student names gets the empty list; a student whose room is the id of
  no room appears in no entry and raises nothing.
\<close>

theorem combine_rooms_with_students:
  assumes "list_all (\<lambda>r. map_of r ''id'' \<noteq> None \<and> map_of r ''name'' \<noteq> None) rooms"
    and "list_all (\<lambda>s. map_of s ''room'' \<noteq> None \<and> map_of s ''id'' \<noteq> None \<and> map_of s ''name'' \<noteq> None)
           students"
    and "distinct (map (\<lambda>r. dict_get r ''id'') rooms)"
  shows "combine rooms students =
     Inr (map (\<lambda>r. \<lparr>combined_id = dict_get r ''id'', combined_name = dict_get r ''name'',
                    combined_students =
                      map (\<lambda>s. \<lparr>entry_id = dict_get s ''id'', entry_name = dict_get s ''name''\<rparr>)
                        (filter (\<lambda>s. dict_get s ''room'' = dict_get r ''id'') students)\<rparr>)
            rooms)"
proof -
  let ?init = "\<lambda>r. (dict_get r ''id'',
      \<lparr>combined_id = dict_get r ''id'', combined_name = dict_get r ''name'', combined_students = []\<rparr>)"
  have b: "build_room_dict [] rooms = Inr (map ?init rooms)"
    using build_room_dict_fresh [OF assms(1), of "[]"] assms(3) by simp
  have "map fst (map ?init rooms) = map (\<lambda>r. dict_get r ''id'') rooms"
    by simp
  then have dist: "distinct (map fst (map ?init rooms))"
    using assms(3) by (simp only:)
  show ?thesis
    by (simp add: combine_def b add_students_distinct [OF assms(2) dist] comp_def)
qed

theorem combine_rooms_with_students_witness:
  "list_all (\<lambda>r. map_of r ''id'' \<noteq> None \<and> map_of r ''name'' \<noteq> None)
     [[(''id'', JInt 1), (''name'', JStr ''A'')], [(''id'', JInt 2), (''name'', JStr ''B'')]]
   \<and> list_all (\<lambda>s. map_of s ''room'' \<noteq> None \<and> map_of s ''id'' \<noteq> None \<and> map_of s ''name'' \<noteq> None)
     [[(''id'', JInt 10), (''name'', JStr ''X''), (''room'', JInt 1)],
      [(''id'', JInt 11), (''name'', JStr ''Y''), (''room'', JInt 3)]]
   \<and> distinct (map (\<lambda>r. dict_get r ''id'')
     [[(''id'', JInt 1), (''name'', JStr ''A'')], [(''id'', JInt 2), (''name'', JStr ''B'')]])
   \<and> combine
     [[(''id'', JInt 1), (''name'', JStr ''A'')], [(''id'', JInt 2), (''name'', JStr ''B'')]]
     [[(''id'', JInt 10), (''name'', JStr ''X''), (''room'', JInt 1)],
      [(''id'', JInt 11), (''name'', JStr ''Y''), (''room'', JInt 3)]]
     = Inr [\<lparr>combined_id = JInt 1, combined_name = JStr ''A'',
             combined_students = [\<lparr>entry_id = JInt 10, entry_name = JStr ''X''\<rparr>]\<rparr>,
            \<lparr>combined_id = JInt 2, combined_name = JStr ''B'', combined_students = []\<rparr>]"
  using combine_rooms_with_students [of
     "[[(''id'', JInt 1), (''name'', JStr ''A'')], [(''id'', JInt 2), (''name'', JStr ''B'')]]"
     "[[(''id'', JInt 10), (''name'', JStr ''X''), (''room'', JInt 1)],
       [(''id'', JInt 11), (''name'', JStr ''Y''), (''room'', JInt 3)]]"]
  by (simp add: dict_get_def)

text \<open>
  Two rooms with the same id share one key of the dictionary: the entry keeps the
  place of the first and the name of the last. The hypothesis of distinct ids is the
  uniqueness of ids within a room collection.
\<close>

lemma combine_same_room_id:
  "combine [[(''id'', JInt 1), (''name'', JStr ''A'')], [(''id'', JInt 1), (''name'', JStr ''B'')]]
     [[(''id'', JInt 10), (''name'', JStr ''X''), (''room'', JInt 1)]]
   = Inr [\<lparr>combined_id = JInt 1, combined_name = JStr ''B'',
           combined_students = [\<lparr>entry_id = JInt 10, entry_name = JStr ''X''\<rparr>]\<rparr>]"
  by (simp add: combine_def dict_item_def)

subsection \<open>Runs of creates and deletes\<close>

lemma largest_id_Max:
  "largest_id items = (if ids_of items = [] then None else Some (Max (set (ids_of items))))"
proof (cases "ids_of items")
  case Nil
  then show ?thesis by (simp add: largest_id_def)
next
  case (Cons x ys)
  then show ?thesis using Max.set_eq_fold [of x ys] by (simp add: largest_id_def)
qed

lemma max_default_largest:
  "max_default (ids_of items) = (case largest_id items of None \<Rightarrow> 0 | Some b \<Rightarrow> b)"
  by (simp add: max_default_def largest_id_def split: list.splits)

lemma has_int_ids_snoc: "has_int_ids items \<Longrightarrow> id_of r = Some n \<Longrightarrow> has_int_ids (items @ [r])"
  by (simp add: has_int_ids_def)

lemma has_int_ids_filter: "has_int_ids items \<Longrightarrow> has_int_ids (filter P items)"
  by (induction items) (auto simp: has_int_ids_def)

lemma largest_after_create:
  assumes "n = 1 + max_default (ids_of items)" and "id_of r = Some n"
  shows "largest_id (items @ [r]) = Some n"
proof -
  have ids: "ids_of (items @ [r]) = ids_of items @ [n]"
    using assms(2) by (simp add: ids_of_append ids_of_Cons ids_of_Nil)
  have "Max (set (ids_of items @ [n])) = n"
  proof (rule Max_eqI)
    show "finite (set (ids_of items @ [n]))" by simp
    show "n \<in> set (ids_of items @ [n])" by simp
    fix y assume "y \<in> set (ids_of items @ [n])"
    then show "y \<le> n" using max_default_upper [of y "ids_of items"] assms(1) by auto
  qed
  then show ?thesis by (simp add: largest_id_Max ids)
qed

lemma largest_after_delete:
  assumes "largest_id items = Some b" and "b \<noteq> i"
  shows "largest_id (filter (\<lambda>r. id_of r \<noteq> Some i) items) = Some b"
proof -
  let ?S = "set (ids_of items)"
  let ?S' = "set (ids_of (filter (\<lambda>r. id_of r \<noteq> Some i) items))"
  from assms(1) have ne: "ids_of items \<noteq> []" and b: "b = Max ?S"
    by (auto simp: largest_id_Max split: if_splits)
  have S': "?S' = ?S - {i}" by (auto simp: set_ids_of)
  have bin: "b \<in> ?S" using ne b by simp
  then have bin': "b \<in> ?S'" using assms(2) S' by simp
  have "Max ?S' = b"
  proof (rule Max_eqI)
    show "finite ?S'" by simp
    show "b \<in> ?S'" by (rule bin')
    fix y assume "y \<in> ?S'"
    then have "y \<in> ?S" using S' by simp
    then show "y \<le> b" using b by simp
  qed
  moreover have "ids_of (filter (\<lambda>r. id_of r \<noteq> Some i) items) \<noteq> []"
    using bin' by auto
  ultimately show ?thesis by (simp add: largest_id_Max)
qed

lemma rooms_delete_stored:
  assumes "readable file_path w"
  shows "stored file_path (snd (rooms_delete file_path i w))
           = filter (\<lambda>r. id_of r \<noteq> Some i) (stored file_path w)"
    and "readable file_path (snd (rooms_delete file_path i w))"
proof -
  show "stored file_path (snd (rooms_delete file_path i w))
           = filter (\<lambda>r. id_of r \<noteq> Some i) (stored file_path w)"
  proof (cases "i \<in> set (ids_of (stored file_path w))")
    case True
    then show ?thesis by (simp add: rooms_delete_present [OF assms] stored_repo_write)
  next
    case False
    then show ?thesis
      using filter_absent [OF False] by (simp add: rooms_delete_absent [OF assms] delete_filter_eq)
  qed
  show "readable file_path (snd (rooms_delete file_path i w))"
  proof (cases "i \<in> set (ids_of (stored file_path w))")
    case True
    then show ?thesis by (simp add: rooms_delete_present [OF assms] readable_repo_write)
  next
    case False
    then show ?thesis by (simp add: rooms_delete_absent [OF assms] assms)
  qed
qed

lemma students_delete_stored:
  assumes "readable file_path w"
  shows "stored file_path (snd (students_delete file_path i w))
           = filter (\<lambda>r. id_of r \<noteq> Some i) (stored file_path w)"
    and "readable file_path (snd (students_delete file_path i w))"
proof -
  show "stored file_path (snd (students_delete file_path i w))
           = filter (\<lambda>r. id_of r \<noteq> Some i) (stored file_path w)"
  proof (cases "i \<in> set (ids_of (stored file_path w))")
    case True
    then show ?thesis by (simp add: students_delete_present [OF assms] stored_repo_write)
  next
    case False
    then show ?thesis
      using filter_absent [OF False] by (simp add: students_delete_absent [OF assms] delete_filter_eq)
  qed
  show "readable file_path (snd (students_delete file_path i w))"
  proof (cases "i \<in> set (ids_of (stored file_path w))")
    case True
    then show ?thesis by (simp add: students_delete_present [OF assms] readable_repo_write)
  next
    case False
    then show ?thesis by (simp add: students_delete_absent [OF assms] assms)
  qed
qed


lemma rooms_create_effect:
  assumes "readable file_path w" and "has_int_ids (stored file_path w)"
  obtains w' where
    "rooms_create file_path name w =
       (Inr \<lparr>room_id = 1 + max_default (ids_of (stored file_path w)), room_name = name\<rparr>, w')"
    and "readable file_path w'" and "has_int_ids (stored file_path w')"
    and "largest_id (stored file_path w') = Some (1 + max_default (ids_of (stored file_path w)))"
proof
  let ?n = "1 + max_default (ids_of (stored file_path w))"
  let ?r = "[(''id'', JInt (1 + max_default (ids_of (stored file_path w)))), (''name'', JStr name)]"
  let ?w' = "repo_write file_path (stored file_path w @ [?r]) w"
  have idr: "id_of ?r = Some ?n" by (simp add: id_of_def)
  show "rooms_create file_path name w = (Inr \<lparr>room_id = 1 + max_default (ids_of (stored file_path w)), room_name = name\<rparr>, ?w')"
    by (rule rooms_create_int [OF assms])
  show "readable file_path ?w'" by (rule readable_repo_write)
  show "has_int_ids (stored file_path ?w')"
    using has_int_ids_snoc [OF assms(2) idr] by (simp add: stored_repo_write)
  show "largest_id (stored file_path ?w') = Some ?n"
    using largest_after_create [OF refl idr] by (simp add: stored_repo_write)
qed

lemma rooms_run_from_largest:
  "readable file_path w \<Longrightarrow> has_int_ids (stored file_path w) \<Longrightarrow>
   largest_id (stored file_path w) = Some b \<Longrightarrow> rooms_keep_largest file_path ops w \<Longrightarrow>
   sorted_wrt (<) (b # rooms_run file_path ops w)"
proof (induction ops arbitrary: w b)
  case Nil
  then show ?case by simp
next
  case (Cons x ops)
  show ?case
  proof (cases x)
    case (Create name)
    let ?n = "1 + max_default (ids_of (stored file_path w))"
    from Cons.prems(3) have n: "?n = b + 1" by (simp add: max_default_largest)
    obtain w' where c: "rooms_create file_path name w = (Inr \<lparr>room_id = 1 + max_default (ids_of (stored file_path w)), room_name = name\<rparr>, w')"
      and w': "readable file_path w'" "has_int_ids (stored file_path w')"
        "largest_id (stored file_path w') = Some ?n"
      using rooms_create_effect [OF Cons.prems(1,2)] by blast
    have k: "rooms_keep_largest file_path ops w'"
      using Cons.prems(4) Create c by simp
    have "sorted_wrt (<) (?n # rooms_run file_path ops w')"
      by (rule Cons.IH [OF w' k])
    then have "sorted_wrt (<) (b # ?n # rooms_run file_path ops w')"
      using n by auto
    then show ?thesis using Create c by simp
  next
    case (Delete i)
    let ?w' = "snd (rooms_delete file_path i w)"
    from Cons.prems(3,4) Delete have bi: "b \<noteq> i" by auto
    have st: "stored file_path ?w' = filter (\<lambda>r. id_of r \<noteq> Some i) (stored file_path w)"
      by (rule rooms_delete_stored(1) [OF Cons.prems(1)])
    have r: "readable file_path ?w'" by (rule rooms_delete_stored(2) [OF Cons.prems(1)])
    have h: "has_int_ids (stored file_path ?w')"
      using has_int_ids_filter [OF Cons.prems(2)] by (simp add: st)
    have l: "largest_id (stored file_path ?w') = Some b"
      using largest_after_delete [OF Cons.prems(3) bi] by (simp add: st)
    have k: "rooms_keep_largest file_path ops ?w'"
      using Cons.prems(4) Delete by simp
    show ?thesis using Cons.IH [OF r h l k] Delete by simp
  qed
qed

lemma rooms_run_sorted:
  "readable file_path w \<Longrightarrow> has_int_ids (stored file_path w) \<Longrightarrow>
   rooms_keep_largest file_path ops w \<Longrightarrow> sorted_wrt (<) (rooms_run file_path ops w)"
proof (induction ops arbitrary: w)
  case Nil
  then show ?case by simp
next
  case (Cons x ops)
  show ?case
  proof (cases x)
    case (Create name)
    let ?n = "1 + max_default (ids_of (stored file_path w))"
    obtain w' where c: "rooms_create file_path name w = (Inr \<lparr>room_id = 1 + max_default (ids_of (stored file_path w)), room_name = name\<rparr>, w')"
      and w': "readable file_path w'" "has_int_ids (stored file_path w')"
        "largest_id (stored file_path w') = Some ?n"
      using rooms_create_effect [OF Cons.prems(1,2)] by blast
    have k: "rooms_keep_largest file_path ops w'"
      using Cons.prems(3) Create c by simp
    have "sorted_wrt (<) (?n # rooms_run file_path ops w')"
      by (rule rooms_run_from_largest [OF w' k])
    then show ?thesis using Create c by simp
  next
    case (Delete i)
    let ?w' = "snd (rooms_delete file_path i w)"
    have st: "stored file_path ?w' = filter (\<lambda>r. id_of r \<noteq> Some i) (stored file_path w)"
      by (rule rooms_delete_stored(1) [OF Cons.prems(1)])
    have r: "readable file_path ?w'" by (rule rooms_delete_stored(2) [OF Cons.prems(1)])
    have h: "has_int_ids (stored file_path ?w')"
      using has_int_ids_filter [OF Cons.prems(2)] by (simp add: st)
    have k: "rooms_keep_largest file_path ops ?w'"
      using Cons.prems(3) Delete by simp
    show ?thesis using Cons.IH [OF r h k] Delete by simp
  qed
qed

lemma students_create_effect:
  assumes "readable file_path w" and "has_int_ids (stored file_path w)"
  obtains w' where
    "students_create file_path name room w =
       (Inr \<lparr>student_id = 1 + max_default (ids_of (stored file_path w)), student_name = name, student_room = room\<rparr>, w')"
    and "readable file_path w'" and "has_int_ids (stored file_path w')"
    and "largest_id (stored file_path w') = Some (1 + max_default (ids_of (stored file_path w)))"
proof
  let ?n = "1 + max_default (ids_of (stored file_path w))"
  let ?r = "[(''id'', JInt (1 + max_default (ids_of (stored file_path w)))), (''name'', JStr name), (''room'', JInt room)]"
  let ?w' = "repo_write file_path (stored file_path w @ [?r]) w"
  have idr: "id_of ?r = Some ?n" by (simp add: id_of_def)
  show "students_create file_path name room w = (Inr \<lparr>student_id = 1 + max_default (ids_of (stored file_path w)), student_name = name, student_room = room\<rparr>, ?w')"
    by (rule students_create_int [OF assms])
  show "readable file_path ?w'" by (rule readable_repo_write)
  show "has_int_ids (stored file_path ?w')"
    using has_int_ids_snoc [OF assms(2) idr] by (simp add: stored_repo_write)
  show "largest_id (stored file_path ?w') = Some ?n"
    using largest_after_create [OF refl idr] by (simp add: stored_repo_write)
qed

lemma students_run_from_largest:
  "readable file_path w \<Longrightarrow> has_int_ids (stored file_path w) \<Longrightarrow>
   largest_id (stored file_path w) = Some b \<Longrightarrow> students_keep_largest file_path ops w \<Longrightarrow>
   sorted_wrt (<) (b # students_run file_path ops w)"
proof (induction ops arbitrary: w b)
  case Nil
  then show ?case by simp
next
  case (Cons x ops)
  show ?case
  proof (cases x)
    case (Create nr)
    obtain name room where nr: "nr = (name, room)" by (cases nr)
    let ?n = "1 + max_default (ids_of (stored file_path w))"
    from Cons.prems(3) have n: "?n = b + 1" by (simp add: max_default_largest)
    obtain w' where c: "students_create file_path name room w = (Inr \<lparr>student_id = 1 + max_default (ids_of (stored file_path w)), student_name = name, student_room = room\<rparr>, w')"
      and w': "readable file_path w'" "has_int_ids (stored file_path w')"
        "largest_id (stored file_path w') = Some ?n"
      using students_create_effect [OF Cons.prems(1,2)] by blast
    have k: "students_keep_largest file_path ops w'"
      using Cons.prems(4) Create nr c by simp
    have "sorted_wrt (<) (?n # students_run file_path ops w')"
      by (rule Cons.IH [OF w' k])
    then have "sorted_wrt (<) (b # ?n # students_run file_path ops w')"
      using n by auto
    then show ?thesis using Create nr c by simp
  next
    case (Delete i)
    let ?w' = "snd (students_delete file_path i w)"
    from Cons.prems(3,4) Delete have bi: "b \<noteq> i" by auto
    have st: "stored file_path ?w' = filter (\<lambda>r. id_of r \<noteq> Some i) (stored file_path w)"
      by (rule students_delete_stored(1) [OF Cons.prems(1)])
    have r: "readable file_path ?w'" by (rule students_delete_stored(2) [OF Cons.prems(1)])
    have h: "has_int_ids (stored file_path ?w')"
      using has_int_ids_filter [OF Cons.prems(2)] by (simp add: st)
    have l: "largest_id (stored file_path ?w') = Some b"
      using largest_after_delete [OF Cons.prems(3) bi] by (simp add: st)
    have k: "students_keep_largest file_path ops ?w'"
      using Cons.prems(4) Delete by simp
    show ?thesis using Cons.IH [OF r h l k] Delete by simp
  qed
qed

lemma students_run_sorted:
  "readable file_path w \<Longrightarrow> has_int_ids (stored file_path w) \<Longrightarrow>
   students_keep_largest file_path ops w \<Longrightarrow> sorted_wrt (<) (students_run file_path ops w)"
proof (induction ops arbitrary: w)
  case Nil
  then show ?case by simp
next
  case (Cons x ops)
  show ?case
  proof (cases x)
    case (Create nr)
    obtain name room where nr: "nr = (name, room)" by (cases nr)
    let ?n = "1 + max_default (ids_of (stored file_path w))"
    obtain w' where c: "students_create file_path name room w = (Inr \<lparr>student_id = 1 + max_default (ids_of (stored file_path w)), student_name = name, student_room = room\<rparr>, w')"
      and w': "readable file_path w'" "has_int_ids (stored file_path w')"
        "largest_id (stored file_path w') = Some ?n"
      using students_create_effect [OF Cons.prems(1,2)] by blast
    have k: "students_keep_largest file_path ops w'"
      using Cons.prems(3) Create nr c by simp
    have "sorted_wrt (<) (?n # students_run file_path ops w')"
      by (rule students_run_from_largest [OF w' k])
    then show ?thesis using Create nr c by simp
  next
    case (Delete i)
    let ?w' = "snd (students_delete file_path i w)"
    have st: "stored file_path ?w' = filter (\<lambda>r. id_of r \<noteq> Some i) (stored file_path w)"
      by (rule students_delete_stored(1) [OF Cons.prems(1)])
    have r: "readable file_path ?w'" by (rule students_delete_stored(2) [OF Cons.prems(1)])
    have h: "has_int_ids (stored file_path ?w')"
      using has_int_ids_filter [OF Cons.prems(2)] by (simp add: st)
    have k: "students_keep_largest file_path ops ?w'"
      using Cons.prems(3) Delete by simp
    show ?thesis using Cons.IH [OF r h k] Delete by simp
  qed
qed


text \<open>
  Two creates, a delete of the record with the largest id, and one more create: the
  third create returns 2 again, the id that the second create had assigned.
\<close>

theorem ids_reused_after_delete_counterexample:
  "rooms_run ''rooms.json'' [Create ''A'', Create ''B'', Delete 2, Create ''C''] \<lparr>files = Map.empty, writes = []\<rparr> = [1, 2, 2]
   \<and> students_run ''students.json''
        [Create (''Ann'', 1), Create (''Bob'', 1), Delete 2, Create (''Cy'', 1)] \<lparr>files = Map.empty, writes = []\<rparr> = [1, 2, 2]"
  by (simp add: rooms_create_def students_create_def repo_read_def next_id_def room_of_items_def
        student_of_items_def dict_item_def repo_write_def rooms_delete_def students_delete_def
        dict_get_def)

text \<open>
  C1, as the code has it. On a readable file whose records carry integer ids, in a
  sequence of creates and deletes in which no delete removes the record that holds
  the largest id of the collection at that moment, every id that a create returns is
  strictly greater than every id that an earlier create of the sequence returned.
\<close>

theorem ids_increase_while_largest_kept:
  assumes "readable file_path w" and "has_int_ids (stored file_path w)"
  shows "(rooms_keep_largest file_path ops w \<longrightarrow> sorted_wrt (<) (rooms_run file_path ops w))
       \<and> (students_keep_largest file_path sops w \<longrightarrow> sorted_wrt (<) (students_run file_path sops w))"
  using rooms_run_sorted [OF assms] students_run_sorted [OF assms] by blast

theorem ids_increase_while_largest_kept_witness:
  "readable ''rooms.json'' \<lparr>files = Map.empty, writes = []\<rparr>
   \<and> has_int_ids (stored ''rooms.json'' \<lparr>files = Map.empty, writes = []\<rparr>)
   \<and> rooms_keep_largest ''rooms.json'' [Create ''A'', Create ''B'', Delete 1, Create ''C''] \<lparr>files = Map.empty, writes = []\<rparr>
   \<and> students_keep_largest ''rooms.json''
        [Create (''Ann'', 1), Delete 7, Create (''Bob'', 1), Create (''Cy'', 2)] \<lparr>files = Map.empty, writes = []\<rparr>
   \<and> rooms_run ''rooms.json'' [Create ''A'', Create ''B'', Delete 1, Create ''C''] \<lparr>files = Map.empty, writes = []\<rparr> = [1, 2, 3]
   \<and> sorted_wrt (<) (rooms_run ''rooms.json'' [Create ''A'', Create ''B'', Delete 1, Create ''C''] \<lparr>files = Map.empty, writes = []\<rparr>)
   \<and> sorted_wrt (<) (students_run ''rooms.json''
        [Create (''Ann'', 1), Delete 7, Create (''Bob'', 1), Create (''Cy'', 2)] \<lparr>files = Map.empty, writes = []\<rparr>)"
  using ids_increase_while_largest_kept [of "''rooms.json''" "\<lparr>files = Map.empty, writes = []\<rparr>"
      "[Create ''A'', Create ''B'', Delete 1, Create ''C'']"
      "[Create (''Ann'', 1), Delete 7, Create (''Bob'', 1), Create (''Cy'', 2)]"]
  by (simp add: rooms_create_def students_create_def repo_read_def next_id_def room_of_items_def
        student_of_items_def dict_item_def repo_write_def rooms_delete_def students_delete_def
        dict_get_def stored_def largest_id_def ids_of_def map_filter_simps id_of_def readable_def
        has_int_ids_def)

end
